theory Spec2Isabelle
  imports Complex_Main "HOL-Library.Word"
begin

unbundle bit_operations_syntax

section \<open>Data model\<close>

text \<open>
  The driver of \<^verbatim>\<open>htu21d.c\<close> talks to the sensor through three transport functions
  (\<^verbatim>\<open>i2c_master_write_packet_wait\<close>, its \<^verbatim>\<open>_no_stop\<close> variant and
  \<^verbatim>\<open>i2c_master_read_packet_wait\<close>) and a blocking delay. The transport is outside the
  driver, so it is a parameter of the model: a function from the history of everything
  the driver has done on the bus so far (the request being answered is the last event)
  to the status code it reports and, for a read, the bytes it delivers. Every packet is
  addressed to \<^verbatim>\<open>HTU21_ADDR\<close> (0x40), so the events do not repeat the address.
\<close>

datatype status_code = STATUS_OK | STATUS_ERR_OVERFLOW | STATUS_ERR_TIMEOUT

datatype bus_event =
    Write "8 word list"
  | WriteNoStop "8 word list"
  | Read nat
  | Delay int

type_synonym i2c_bus = "bus_event list \<Rightarrow> status_code \<times> 8 word list"

text \<open>
  Modelled from the spec: \<^verbatim>\<open>htu21d.h\<close>, which declares the enumerations of the driver, is
  not among the sources. The status kinds are the four named in the doc comments of
  \<^verbatim>\<open>htu21d.c\<close>, the transfer mode is \<open>hold\<close> or \<open>no_hold\<close>, and the four enumerators of
  \<^verbatim>\<open>enum htu21_resolution\<close> are integer constants whose values are taken as a parameter.
\<close>

datatype htu21_status =
    htu21_status_ok
  | htu21_status_no_i2c_acknowledge
  | htu21_status_i2c_transfer_error
  | htu21_status_crc_error

datatype htu21_i2c_master_mode = htu21_i2c_hold | htu21_i2c_no_hold

record htu21_resolution_enum =
  htu21_resolution_t_14b_rh_12b :: int
  htu21_resolution_t_13b_rh_10b :: int
  htu21_resolution_t_12b_rh_8b :: int
  htu21_resolution_t_11b_rh_11b :: int

text \<open>
  The file-scope variables of \<^verbatim>\<open>htu21d.c\<close>, together with the history of bus events.
\<close>

record driver =
  htu21_temperature_conversion_time :: "32 word"
  htu21_humidity_conversion_time :: "32 word"
  i2c_master_mode :: htu21_i2c_master_mode
  trace :: "bus_event list"

subsection \<open>Constants of the wire protocol\<close>

abbreviation (input) HTU21_RESET_COMMAND :: "8 word" where
  "HTU21_RESET_COMMAND \<equiv> 0xFE"
abbreviation (input) HTU21_READ_TEMPERATURE_W_HOLD_COMMAND :: "8 word" where
  "HTU21_READ_TEMPERATURE_W_HOLD_COMMAND \<equiv> 0xE3"
abbreviation (input) HTU21_READ_TEMPERATURE_WO_HOLD_COMMAND :: "8 word" where
  "HTU21_READ_TEMPERATURE_WO_HOLD_COMMAND \<equiv> 0xF3"
abbreviation (input) HTU21_READ_HUMIDITY_W_HOLD_COMMAND :: "8 word" where
  "HTU21_READ_HUMIDITY_W_HOLD_COMMAND \<equiv> 0xE5"
abbreviation (input) HTU21_READ_HUMIDITY_WO_HOLD_COMMAND :: "8 word" where
  "HTU21_READ_HUMIDITY_WO_HOLD_COMMAND \<equiv> 0xF5"
abbreviation (input) HTU21_READ_SERIAL_FIRST_8BYTES_COMMAND :: "16 word" where
  "HTU21_READ_SERIAL_FIRST_8BYTES_COMMAND \<equiv> 0xFA0F"
abbreviation (input) HTU21_READ_SERIAL_LAST_6BYTES_COMMAND :: "16 word" where
  "HTU21_READ_SERIAL_LAST_6BYTES_COMMAND \<equiv> 0xFCC9"
abbreviation (input) HTU21_WRITE_USER_REG_COMMAND :: "8 word" where
  "HTU21_WRITE_USER_REG_COMMAND \<equiv> 0xE6"
abbreviation (input) HTU21_READ_USER_REG_COMMAND :: "8 word" where
  "HTU21_READ_USER_REG_COMMAND \<equiv> 0xE7"

abbreviation (input) RESET_TIME :: int where
  "RESET_TIME \<equiv> 15"

abbreviation (input) HTU21_USER_REG_RESOLUTION_MASK :: "8 word" where
  "HTU21_USER_REG_RESOLUTION_MASK \<equiv> 0x81"
abbreviation (input) HTU21_USER_REG_END_OF_BATTERY_MASK :: "8 word" where
  "HTU21_USER_REG_END_OF_BATTERY_MASK \<equiv> 0x40"
abbreviation (input) HTU21_USER_REG_ENABLE_ONCHIP_HEATER_MASK :: "8 word" where
  "HTU21_USER_REG_ENABLE_ONCHIP_HEATER_MASK \<equiv> 0x4"
abbreviation (input) HTU21_USER_REG_DISABLE_OTP_RELOAD_MASK :: "8 word" where
  "HTU21_USER_REG_DISABLE_OTP_RELOAD_MASK \<equiv> 0x2"

text \<open>
  In C the masks are \<^verbatim>\<open>int\<close> expressions and the results are stored back into a
  \<^verbatim>\<open>uint8_t\<close>; bitwise operations commute with that truncation, so the masks are taken
  at eight bits.
\<close>

definition HTU21_USER_REG_RESERVED_MASK :: "8 word" where
  "HTU21_USER_REG_RESERVED_MASK =
     NOT (HTU21_USER_REG_RESOLUTION_MASK OR HTU21_USER_REG_END_OF_BATTERY_MASK
          OR HTU21_USER_REG_ENABLE_ONCHIP_HEATER_MASK OR HTU21_USER_REG_DISABLE_OTP_RELOAD_MASK)"

section \<open>Transport and delay\<close>

definition i2c_master_write_packet_wait ::
  "i2c_bus \<Rightarrow> 8 word list \<Rightarrow> driver \<Rightarrow> status_code \<times> driver" where
  "i2c_master_write_packet_wait bus data s =
     (let s' = s\<lparr>trace := trace s @ [Write data]\<rparr>
      in (fst (bus (trace s')), s'))"

definition i2c_master_write_packet_wait_no_stop ::
  "i2c_bus \<Rightarrow> 8 word list \<Rightarrow> driver \<Rightarrow> status_code \<times> driver" where
  "i2c_master_write_packet_wait_no_stop bus data s =
     (let s' = s\<lparr>trace := trace s @ [WriteNoStop data]\<rparr>
      in (fst (bus (trace s')), s'))"

text \<open>
  A read asks for as many bytes as the buffer holds. The bytes the transport delivers
  overwrite the front of the buffer; bytes it does not deliver keep their old content.
\<close>

definition i2c_master_read_packet_wait ::
  "i2c_bus \<Rightarrow> 8 word list \<Rightarrow> driver \<Rightarrow> status_code \<times> 8 word list \<times> driver" where
  "i2c_master_read_packet_wait bus buffer s =
     (let s' = s\<lparr>trace := trace s @ [Read (length buffer)]\<rparr>;
          (i2c_status, payload) = bus (trace s')
      in (i2c_status, take (length buffer) (payload @ drop (length payload) buffer), s'))"

text \<open>
  \<^verbatim>\<open>delay_ms\<close> of \<^verbatim>\<open>esp32_i2c.c\<close> blocks only for a non-negative argument. The tick
  period by which it divides is a constant of the operating system, so the event records
  the request in milliseconds.
\<close>

definition delay_ms :: "int \<Rightarrow> driver \<Rightarrow> driver" where
  "delay_ms ms s = (if ms \<ge> 0 then s\<lparr>trace := trace s @ [Delay ms]\<rparr> else s)"

section \<open>Commands\<close>

definition htu21_write_command :: "i2c_bus \<Rightarrow> 8 word \<Rightarrow> driver \<Rightarrow> htu21_status \<times> driver" where
  "htu21_write_command bus cmd s =
     (let (i2c_status, s1) = i2c_master_write_packet_wait bus [cmd] s
      in if i2c_status = STATUS_ERR_OVERFLOW then (htu21_status_no_i2c_acknowledge, s1)
         else if i2c_status \<noteq> STATUS_OK then (htu21_status_i2c_transfer_error, s1)
         else (htu21_status_ok, s1))"

definition htu21_write_command_no_stop ::
  "i2c_bus \<Rightarrow> 8 word \<Rightarrow> driver \<Rightarrow> htu21_status \<times> driver" where
  "htu21_write_command_no_stop bus cmd s =
     (let (i2c_status, s1) = i2c_master_write_packet_wait_no_stop bus [cmd] s
      in if i2c_status = STATUS_ERR_OVERFLOW then (htu21_status_no_i2c_acknowledge, s1)
         else if i2c_status \<noteq> STATUS_OK then (htu21_status_i2c_transfer_error, s1)
         else (htu21_status_ok, s1))"

definition htu21_reset :: "i2c_bus \<Rightarrow> driver \<Rightarrow> htu21_status \<times> driver" where
  "htu21_reset bus s =
     (let (status, s1) = htu21_write_command bus HTU21_RESET_COMMAND s
      in if status \<noteq> htu21_status_ok then (status, s1)
         else (htu21_status_ok,
               delay_ms RESET_TIME
                 (s1\<lparr>htu21_temperature_conversion_time := 50000,
                     htu21_humidity_conversion_time := 16000\<rparr>)))"

section \<open>Checksum\<close>

text \<open>
  The body of the \<^verbatim>\<open>while\<close> loop of \<^verbatim>\<open>htu21_crc_check\<close>, and the loop itself. The loop
  ends when \<open>msb\<close> reaches 0x80; started elsewhere it would spin for ever, so the loop is a
  partial function and \<open>None\<close> stands for not returning. The source's \<open>mask\<close> and \<open>value\<close>
  are \<open>msk\<close> and \<open>val\<close> here. The comparison \<^verbatim>\<open>result == crc\<close> is made at 32 bits.
\<close>

definition crc_step :: "32 word \<Rightarrow> 32 word \<Rightarrow> 32 word \<Rightarrow> 32 word \<Rightarrow> 32 word" where
  "crc_step result msb msk polynom =
     (if result AND msb \<noteq> 0
      then ((result XOR polynom) AND msk) OR (result AND NOT msk)
      else result)"

partial_function (option) crc_loop ::
  "32 word \<Rightarrow> 32 word \<Rightarrow> 32 word \<Rightarrow> 32 word \<Rightarrow> 32 word option" where
  "crc_loop result msb msk polynom =
     (if msb \<noteq> 0x80
      then crc_loop (crc_step result msb msk polynom)
             (drop_bit 1 msb) (drop_bit 1 msk) (drop_bit 1 polynom)
      else Some result)"

definition htu21_crc_check :: "16 word \<Rightarrow> 8 word \<Rightarrow> htu21_status option" where
  "htu21_crc_check val crc =
     (case crc_loop (push_bit 8 (ucast val)) 0x800000 0xFF8000 0x988000 of
        None \<Rightarrow> None
      | Some result \<Rightarrow>
          Some (if result = ucast crc then htu21_status_ok else htu21_status_crc_error))"

subsection \<open>The checksum the specification describes\<close>

text \<open>
  CRC-8 with generator \<open>x\<^sup>8 + x\<^sup>5 + x\<^sup>4 + 1\<close> as a shift register: the message is fed most
  significant bit first into an eight-bit remainder that starts at 0; whenever a one is
  shifted out of the top, the low byte 0x31 of the generator is added. The message is the
  16-bit value followed by one zero byte. No bit is reflected.
\<close>

definition crc8_feed :: "bool \<Rightarrow> 8 word \<Rightarrow> 8 word" where
  "crc8_feed b r =
     (let r' = push_bit 1 r OR of_bool b in if bit r 7 then r' XOR 0x31 else r')"

fun crc8_bits :: "bool list \<Rightarrow> 8 word \<Rightarrow> 8 word" where
  "crc8_bits [] r = r"
| "crc8_bits (b # bs) r = crc8_bits bs (crc8_feed b r)"

definition msb_first :: "16 word \<Rightarrow> bool list" where
  "msb_first v = map (bit v) (rev [0..<16])"

definition crc8_spec :: "16 word \<Rightarrow> 8 word" where
  "crc8_spec v = crc8_bits (msb_first v @ replicate 8 False) 0"

subsection \<open>Auxiliary notions for the proofs about the checksum\<close>

fun crc_iter :: "nat \<Rightarrow> 32 word \<Rightarrow> 32 word \<Rightarrow> 32 word \<Rightarrow> 32 word \<Rightarrow> 32 word" where
  "crc_iter 0 result msb msk polynom = result"
| "crc_iter (Suc k) result msb msk polynom =
     crc_iter k (crc_step result msb msk polynom)
       (drop_bit 1 msb) (drop_bit 1 msk) (drop_bit 1 polynom)"

definition crc_reg :: "16 word \<Rightarrow> 32 word" where
  "crc_reg v = crc_iter 16 (push_bit 8 (ucast v)) 0x800000 0xFF8000 0x988000"

definition bxor :: "bool \<Rightarrow> bool \<Rightarrow> bool" where
  "bxor a b = (a \<noteq> b)"

section \<open>User register\<close>

text \<open>
  A function with an output parameter returns \<open>Inr\<close> of the value it stores when it
  returns \<^verbatim>\<open>htu21_status_ok\<close>, and \<open>Inl\<close> of the status of its early return otherwise;
  none of the static helpers stores anything before an early return.
\<close>

definition htu21_read_user_register ::
  "i2c_bus \<Rightarrow> driver \<Rightarrow> (htu21_status + 8 word) \<times> driver" where
  "htu21_read_user_register bus s =
     (let (status, s1) = htu21_write_command bus HTU21_READ_USER_REG_COMMAND s
      in if status \<noteq> htu21_status_ok then (Inl status, s1)
         else
           let (i2c_status, buffer, s2) = i2c_master_read_packet_wait bus [0] s1
           in if i2c_status = STATUS_ERR_OVERFLOW then (Inl htu21_status_no_i2c_acknowledge, s2)
              else if i2c_status \<noteq> STATUS_OK then (Inl htu21_status_i2c_transfer_error, s2)
              else (Inr (buffer ! 0), s2))"

definition htu21_write_user_register ::
  "i2c_bus \<Rightarrow> 8 word \<Rightarrow> driver \<Rightarrow> htu21_status \<times> driver" where
  "htu21_write_user_register bus val s =
     (case htu21_read_user_register bus s of
        (Inl status, s1) \<Rightarrow> (status, s1)
      | (Inr reg, s1) \<Rightarrow>
          let reg1 = reg AND HTU21_USER_REG_RESERVED_MASK;
              reg2 = reg1 OR (val AND NOT HTU21_USER_REG_RESERVED_MASK);
              (i2c_status, s2) =
                 i2c_master_write_packet_wait bus [HTU21_WRITE_USER_REG_COMMAND, reg2] s1
          in if i2c_status = STATUS_ERR_OVERFLOW then (htu21_status_no_i2c_acknowledge, s2)
             else if i2c_status \<noteq> STATUS_OK then (htu21_status_i2c_transfer_error, s2)
             else (htu21_status_ok, s2))"

text \<open>
  \<^verbatim>\<open>htu21_set_resolution\<close>: the locals \<open>tmp\<close>, \<open>temperature_conversion_time\<close> and
  \<open>humidity_conversion_time\<close> keep their initial values when no branch of the chain matches.
\<close>

definition htu21_set_resolution ::
  "i2c_bus \<Rightarrow> htu21_resolution_enum \<Rightarrow> int \<Rightarrow> driver \<Rightarrow> htu21_status \<times> driver" where
  "htu21_set_resolution bus e res s =
     (let (tmp, temperature_conversion_time, humidity_conversion_time) =
            (if res = htu21_resolution_t_14b_rh_12b e then (0x00, 50000, 16000)
             else if res = htu21_resolution_t_13b_rh_10b e then (0x80, 25000, 5000)
             else if res = htu21_resolution_t_12b_rh_8b e then (0x01, 13000, 3000)
             else if res = htu21_resolution_t_11b_rh_11b e then (0x81, 7000, 8000)
             else (0, 50000, 16000))
      in case htu21_read_user_register bus s of
           (Inl status, s1) \<Rightarrow> (status, s1)
         | (Inr reg_value, s1) \<Rightarrow>
             let reg_value1 = reg_value AND NOT HTU21_USER_REG_RESOLUTION_MASK;
                 reg_value2 = reg_value1 OR (tmp AND HTU21_USER_REG_RESOLUTION_MASK);
                 s2 = s1\<lparr>htu21_temperature_conversion_time := temperature_conversion_time,
                         htu21_humidity_conversion_time := humidity_conversion_time\<rparr>
             in htu21_write_user_register bus reg_value2 s2)"

section \<open>Conversions\<close>

text \<open>
  \<^verbatim>\<open>htu21_temperature_conversion_and_read_adc\<close> and
  \<^verbatim>\<open>htu21_humidity_conversion_and_read_adc\<close> have the same body up to the two command
  codes and the timing variable they read, which are the parameters here. In no-hold mode
  the wait is performed before the status of the command write is looked at. The argument
  of \<^verbatim>\<open>delay_ms\<close> is the unsigned quotient, which always fits an \<^verbatim>\<open>int\<close>.
\<close>

definition conversion_and_read_adc ::
  "8 word \<Rightarrow> 8 word \<Rightarrow> (driver \<Rightarrow> 32 word) \<Rightarrow> i2c_bus \<Rightarrow> driver
     \<Rightarrow> ((htu21_status + 16 word) \<times> driver) option" where
  "conversion_and_read_adc hold_command no_hold_command conversion_time bus s =
     (let (status, s1) =
            (if i2c_master_mode s = htu21_i2c_hold
             then htu21_write_command_no_stop bus hold_command s
             else
               let (st, s') = htu21_write_command bus no_hold_command s
               in (st, delay_ms (uint (conversion_time s' div 1000)) s'))
      in if status \<noteq> htu21_status_ok then Some (Inl status, s1)
         else
           let (i2c_status, buffer, s2) = i2c_master_read_packet_wait bus [0, 0, 0] s1
           in if i2c_status = STATUS_ERR_OVERFLOW
              then Some (Inl htu21_status_no_i2c_acknowledge, s2)
              else if i2c_status \<noteq> STATUS_OK
              then Some (Inl htu21_status_i2c_transfer_error, s2)
              else
                let adc = push_bit 8 (ucast (buffer ! 0)) OR ucast (buffer ! 1);
                    crc = buffer ! 2
                in case htu21_crc_check adc crc of
                     None \<Rightarrow> None
                   | Some crc_status \<Rightarrow>
                       if crc_status \<noteq> htu21_status_ok then Some (Inl crc_status, s2)
                       else Some (Inr adc, s2))"

definition htu21_temperature_conversion_and_read_adc ::
  "i2c_bus \<Rightarrow> driver \<Rightarrow> ((htu21_status + 16 word) \<times> driver) option" where
  "htu21_temperature_conversion_and_read_adc =
     conversion_and_read_adc HTU21_READ_TEMPERATURE_W_HOLD_COMMAND
       HTU21_READ_TEMPERATURE_WO_HOLD_COMMAND htu21_temperature_conversion_time"

definition htu21_humidity_conversion_and_read_adc ::
  "i2c_bus \<Rightarrow> driver \<Rightarrow> ((htu21_status + 16 word) \<times> driver) option" where
  "htu21_humidity_conversion_and_read_adc =
     conversion_and_read_adc HTU21_READ_HUMIDITY_W_HOLD_COMMAND
       HTU21_READ_HUMIDITY_WO_HOLD_COMMAND htu21_humidity_conversion_time"

section \<open>Serial number\<close>

text \<open>
  The two checking loops of \<^verbatim>\<open>htu21_read_serial_number\<close>. A loop gives the status of its
  early return, or \<^verbatim>\<open>htu21_status_ok\<close> when it runs to its end. The index stays below 14,
  so the eight-bit counter of the source never wraps.
\<close>

function serial_crc_bytes :: "8 word list \<Rightarrow> nat \<Rightarrow> htu21_status option" where
  "serial_crc_bytes rcv_data i =
     (if i < 8
      then case htu21_crc_check (ucast (rcv_data ! i)) (rcv_data ! (i + 1)) of
             None \<Rightarrow> None
           | Some status \<Rightarrow>
               if status \<noteq> htu21_status_ok then Some status
               else serial_crc_bytes rcv_data (i + 2)
      else Some htu21_status_ok)"
  by pat_completeness auto
termination
  by (relation "measure (\<lambda>(rcv_data, i). 8 - i)") auto

function serial_crc_words :: "8 word list \<Rightarrow> nat \<Rightarrow> htu21_status option" where
  "serial_crc_words rcv_data i =
     (if i < 14
      then case htu21_crc_check
                  (push_bit 8 (ucast (rcv_data ! i)) OR ucast (rcv_data ! (i + 1)))
                  (rcv_data ! (i + 2)) of
             None \<Rightarrow> None
           | Some status \<Rightarrow>
               if status \<noteq> htu21_status_ok then Some status
               else serial_crc_words rcv_data (i + 3)
      else Some htu21_status_ok)"
  by pat_completeness auto
termination
  by (relation "measure (\<lambda>(rcv_data, i). 14 - i)") auto

definition serial_number_of :: "8 word list \<Rightarrow> 64 word" where
  "serial_number_of rcv_data =
     push_bit 56 (ucast (rcv_data ! 0)) OR push_bit 48 (ucast (rcv_data ! 2))
     OR push_bit 40 (ucast (rcv_data ! 4)) OR push_bit 32 (ucast (rcv_data ! 6))
     OR push_bit 24 (ucast (rcv_data ! 8)) OR push_bit 16 (ucast (rcv_data ! 9))
     OR push_bit 8 (ucast (rcv_data ! 11)) OR push_bit 0 (ucast (rcv_data ! 12))"

text \<open>
  A public function with output parameters returns its status and, for each output, the
  value it stored there, or \<open>None\<close> when it stored nothing. The status returned by the two
  command writes is discarded, as in the source. The receive array is not initialised in
  the source; bytes the transport leaves out read as 0 here.
\<close>

definition htu21_read_serial_number ::
  "i2c_bus \<Rightarrow> driver \<Rightarrow> (htu21_status \<times> 64 word option \<times> driver) option" where
  "htu21_read_serial_number bus s =
     (let rcv_data0 = replicate 14 0;
          cmd_data = [ucast (drop_bit 8 HTU21_READ_SERIAL_FIRST_8BYTES_COMMAND AND 0xFF),
                      ucast (HTU21_READ_SERIAL_FIRST_8BYTES_COMMAND AND 0xFF)];
          (_, s1) = i2c_master_write_packet_wait_no_stop bus cmd_data s;
          (i2c_status, first, s2) = i2c_master_read_packet_wait bus (take 8 rcv_data0) s1;
          rcv_data1 = first @ drop 8 rcv_data0
      in if i2c_status = STATUS_ERR_OVERFLOW
         then Some (htu21_status_no_i2c_acknowledge, None, s2)
         else if i2c_status \<noteq> STATUS_OK
         then Some (htu21_status_i2c_transfer_error, None, s2)
         else
           let cmd_data' = [ucast (drop_bit 8 HTU21_READ_SERIAL_LAST_6BYTES_COMMAND AND 0xFF),
                            ucast (HTU21_READ_SERIAL_LAST_6BYTES_COMMAND AND 0xFF)];
               (_, s3) = i2c_master_write_packet_wait_no_stop bus cmd_data' s2;
               (i2c_status', last6, s4) =
                  i2c_master_read_packet_wait bus (drop 8 rcv_data1) s3;
               rcv_data = take 8 rcv_data1 @ last6
           in if i2c_status' = STATUS_ERR_OVERFLOW
              then Some (htu21_status_no_i2c_acknowledge, None, s4)
              else if i2c_status' \<noteq> STATUS_OK
              then Some (htu21_status_i2c_transfer_error, None, s4)
              else
                case serial_crc_bytes rcv_data 0 of
                  None \<Rightarrow> None
                | Some status \<Rightarrow>
                    if status \<noteq> htu21_status_ok then Some (status, None, s4)
                    else
                      case serial_crc_words rcv_data 8 of
                        None \<Rightarrow> None
                      | Some status' \<Rightarrow>
                          if status' \<noteq> htu21_status_ok then Some (status', None, s4)
                          else Some (htu21_status_ok, Some (serial_number_of rcv_data), s4))"

section \<open>Floating-point values\<close>

text \<open>
  The \<^verbatim>\<open>float\<close> and \<^verbatim>\<open>double\<close> values of the source are modelled with the special values
  of IEEE 754 and exact arithmetic on the finite ones: rounding, overflow to infinity,
  underflow to zero and the sign of zero are not modelled (a zero divisor counts as \<open>+0\<close>,
  which is the zero that an exact cancellation produces). The special cases follow Annex F
  of C99. The constants are taken at their decimal values.
\<close>

datatype c_float = Fin real | PInf | NInf | NaN

definition inf_of_sign :: "real \<Rightarrow> c_float" where
  "inf_of_sign x = (if x = 0 then NaN else if 0 < x then PInf else NInf)"

fun f_neg :: "c_float \<Rightarrow> c_float" where
  "f_neg (Fin x) = Fin (- x)"
| "f_neg PInf = NInf"
| "f_neg NInf = PInf"
| "f_neg NaN = NaN"

fun f_add :: "c_float \<Rightarrow> c_float \<Rightarrow> c_float" where
  "f_add (Fin x) (Fin y) = Fin (x + y)"
| "f_add NaN y = NaN"
| "f_add x NaN = NaN"
| "f_add PInf NInf = NaN"
| "f_add NInf PInf = NaN"
| "f_add PInf y = PInf"
| "f_add NInf y = NInf"
| "f_add (Fin x) y = y"

definition f_sub :: "c_float \<Rightarrow> c_float \<Rightarrow> c_float" where
  "f_sub x y = f_add x (f_neg y)"

fun f_mul :: "c_float \<Rightarrow> c_float \<Rightarrow> c_float" where
  "f_mul (Fin x) (Fin y) = Fin (x * y)"
| "f_mul NaN y = NaN"
| "f_mul x NaN = NaN"
| "f_mul (Fin x) PInf = inf_of_sign x"
| "f_mul (Fin x) NInf = inf_of_sign (- x)"
| "f_mul PInf (Fin y) = inf_of_sign y"
| "f_mul NInf (Fin y) = inf_of_sign (- y)"
| "f_mul PInf PInf = PInf"
| "f_mul PInf NInf = NInf"
| "f_mul NInf PInf = NInf"
| "f_mul NInf NInf = PInf"

fun f_div :: "c_float \<Rightarrow> c_float \<Rightarrow> c_float" where
  "f_div (Fin x) (Fin y) = (if y = 0 then inf_of_sign x else Fin (x / y))"
| "f_div NaN y = NaN"
| "f_div x NaN = NaN"
| "f_div (Fin x) y = Fin 0"
| "f_div PInf (Fin y) = (if 0 \<le> y then PInf else NInf)"
| "f_div NInf (Fin y) = (if 0 \<le> y then NInf else PInf)"
| "f_div x y = NaN"

fun f_log10 :: "c_float \<Rightarrow> c_float" where
  "f_log10 (Fin x) = (if x < 0 then NaN else if x = 0 then NInf else Fin (log 10 x))"
| "f_log10 PInf = PInf"
| "f_log10 NInf = NaN"
| "f_log10 NaN = NaN"

fun f_pow10 :: "c_float \<Rightarrow> c_float" where
  "f_pow10 (Fin y) = Fin (10 powr y)"
| "f_pow10 PInf = PInf"
| "f_pow10 NInf = Fin 0"
| "f_pow10 NaN = NaN"

section \<open>Measurements\<close>

abbreviation (input) HTU21_TEMPERATURE_COEFFICIENT :: real where
  "HTU21_TEMPERATURE_COEFFICIENT \<equiv> - 0.15"
abbreviation (input) HTU21_CONSTANT_A :: real where
  "HTU21_CONSTANT_A \<equiv> 8.1332"
abbreviation (input) HTU21_CONSTANT_B :: real where
  "HTU21_CONSTANT_B \<equiv> 1762.39"
abbreviation (input) HTU21_CONSTANT_C :: real where
  "HTU21_CONSTANT_C \<equiv> 235.66"
abbreviation (input) TEMPERATURE_COEFF_MUL :: real where
  "TEMPERATURE_COEFF_MUL \<equiv> 175.72"
abbreviation (input) TEMPERATURE_COEFF_ADD :: real where
  "TEMPERATURE_COEFF_ADD \<equiv> - 46.85"
abbreviation (input) HUMIDITY_COEFF_MUL :: real where
  "HUMIDITY_COEFF_MUL \<equiv> 125"
abbreviation (input) HUMIDITY_COEFF_ADD :: real where
  "HUMIDITY_COEFF_ADD \<equiv> - 6"

definition temperature_of_adc :: "16 word \<Rightarrow> c_float" where
  "temperature_of_adc adc =
     f_add (f_div (f_mul (Fin (real (unat adc))) (Fin TEMPERATURE_COEFF_MUL)) (Fin (2 ^ 16)))
       (Fin TEMPERATURE_COEFF_ADD)"

definition humidity_of_adc :: "16 word \<Rightarrow> c_float" where
  "humidity_of_adc adc =
     f_add (f_div (f_mul (Fin (real (unat adc))) (Fin HUMIDITY_COEFF_MUL)) (Fin (2 ^ 16)))
       (Fin HUMIDITY_COEFF_ADD)"

definition htu21_read_temperature_and_relative_humidity ::
  "i2c_bus \<Rightarrow> driver \<Rightarrow> (htu21_status \<times> c_float option \<times> c_float option \<times> driver) option"
  where
  "htu21_read_temperature_and_relative_humidity bus s =
     (case htu21_temperature_conversion_and_read_adc bus s of
        None \<Rightarrow> None
      | Some (Inl status, s1) \<Rightarrow> Some (status, None, None, s1)
      | Some (Inr adc, s1) \<Rightarrow>
          let temperature = temperature_of_adc adc
          in case htu21_humidity_conversion_and_read_adc bus s1 of
               None \<Rightarrow> None
             | Some (Inl status, s2) \<Rightarrow> Some (status, Some temperature, None, s2)
             | Some (Inr adc', s2) \<Rightarrow>
                 Some (htu21_status_ok, Some temperature, Some (humidity_of_adc adc'), s2))"

definition htu21_compute_compensated_humidity :: "c_float \<Rightarrow> c_float \<Rightarrow> c_float" where
  "htu21_compute_compensated_humidity temperature relative_humidity =
     f_add relative_humidity
       (f_mul (f_sub (Fin 25) temperature) (Fin HTU21_TEMPERATURE_COEFFICIENT))"

definition htu21_compute_dew_point :: "c_float \<Rightarrow> c_float \<Rightarrow> c_float" where
  "htu21_compute_dew_point temperature relative_humidity =
     (let partial_pressure =
            f_pow10 (f_sub (Fin HTU21_CONSTANT_A)
                       (f_div (Fin HTU21_CONSTANT_B)
                          (f_add temperature (Fin HTU21_CONSTANT_C))));
          dew_point =
            f_sub (f_div (f_neg (Fin HTU21_CONSTANT_B))
                     (f_sub (f_log10 (f_div (f_mul relative_humidity partial_pressure)
                                        (Fin 100)))
                        (Fin HTU21_CONSTANT_A)))
              (Fin HTU21_CONSTANT_C)
      in dew_point)"

section \<open>Example transports and states\<close>

text \<open>
  The state after \<^verbatim>\<open>htu21_init\<close>: the initialisers of the two timing variables, no-hold
  mode, nothing on the bus yet.
\<close>

definition initial_driver :: driver where
  "initial_driver =
     \<lparr>htu21_temperature_conversion_time = 50000, htu21_humidity_conversion_time = 16000,
      i2c_master_mode = htu21_i2c_no_hold, trace = []\<rparr>"

text \<open>One assignment of values to the four enumerators, for the examples.\<close>

definition example_enum :: htu21_resolution_enum where
  "example_enum =
     \<lparr>htu21_resolution_t_14b_rh_12b = 0, htu21_resolution_t_13b_rh_10b = 1,
      htu21_resolution_t_12b_rh_8b = 2, htu21_resolution_t_11b_rh_11b = 3\<rparr>"

text \<open>
  A sensor that acknowledges everything. Its answers, by the newest events of the history:
  the two serial-number payloads, the temperature 0x683A and the humidity 0x4E85 with their
  checksums, and the user register 0xBB.
\<close>

fun sensor_reply :: "bus_event list \<Rightarrow> 8 word list" where
  "sensor_reply (Read n # WriteNoStop cmd # past) =
     (if cmd = [0xFA, 0x0F] then [0x48, 0x84, 0x54, 0xBA, 0x00, 0x00, 0x32, 0xA7]
      else if cmd = [0xFC, 0xC9] then [0x0A, 0x32, 0x49, 0x68, 0x3A, 0x7C]
      else if cmd = [0xE3] then [0x68, 0x3A, 0x7C]
      else [0x4E, 0x85, 0x6B])"
| "sensor_reply (Read n # Delay ms # Write cmd # past) =
     (if cmd = [0xF3] then [0x68, 0x3A, 0x7C] else [0x4E, 0x85, 0x6B])"
| "sensor_reply (Read n # past) = [0xBB]"
| "sensor_reply past = []"

definition sensor_bus :: i2c_bus where
  "sensor_bus tr = (STATUS_OK, sensor_reply (rev tr))"

text \<open>The same sensor behind a transport that reports a failure for selected requests.\<close>

definition faulty_bus :: "(bus_event \<Rightarrow> bool) \<Rightarrow> status_code \<Rightarrow> i2c_bus" where
  "faulty_bus fault code tr = (if fault (last tr) then (code, []) else sensor_bus tr)"

fun is_register_write :: "bus_event \<Rightarrow> bool" where
  "is_register_write (Write (c # d)) = (c = HTU21_WRITE_USER_REG_COMMAND)"
| "is_register_write ev = False"

fun is_no_stop_write :: "bus_event \<Rightarrow> bool" where
  "is_no_stop_write (WriteNoStop d) = True"
| "is_no_stop_write ev = False"

text \<open>The same sensor with the last checksum byte of the second serial payload cleared.\<close>

definition corrupt_serial_bus :: i2c_bus where
  "corrupt_serial_bus tr =
     (let (code, payload) = sensor_bus tr
      in (code, if length payload = 6 then payload[5 := 0] else payload))"

section \<open>Auxiliary notions for stating the results\<close>

text \<open>
  The translation of a transport status that the driver repeats after every transfer:
  an overflow means the device did not acknowledge, any other failure is a transfer error.
\<close>

definition status_of_code :: "status_code \<Rightarrow> htu21_status" where
  "status_of_code c =
     (case c of
        STATUS_OK \<Rightarrow> htu21_status_ok
      | STATUS_ERR_OVERFLOW \<Rightarrow> htu21_status_no_i2c_acknowledge
      | STATUS_ERR_TIMEOUT \<Rightarrow> htu21_status_i2c_transfer_error)"

text \<open>
  Every checksum group of the two serial-number payloads verifies: four (byte, checksum)
  pairs in the first, two (big-endian 16-bit value, checksum) triples in the second.
\<close>

definition groups_verify :: "8 word list \<Rightarrow> 8 word list \<Rightarrow> bool" where
  "groups_verify first8 last6 =
     (list_all
        (\<lambda>i. htu21_crc_check (ucast (first8 ! i)) (first8 ! (i + 1)) = Some htu21_status_ok)
        [0, 2, 4, 6]
      \<and> list_all
          (\<lambda>i. htu21_crc_check (push_bit 8 (ucast (last6 ! i)) OR ucast (last6 ! (i + 1)))
                 (last6 ! (i + 2)) = Some htu21_status_ok)
          [0, 3])"

definition is_write_of :: "8 word \<Rightarrow> bus_event \<Rightarrow> bool" where
  "is_write_of cmd ev = (ev = Write [cmd])"

section \<open>Auxiliary facts about the checksum loop\<close>

lemma crc_step_alt:
  "crc_step r msb msk p = r XOR (if r AND msb \<noteq> 0 then p AND msk else 0)"
  by (auto simp: crc_step_def bit_eq_iff bit_simps)

lemma test_bit_xor:
  "((a XOR b) AND 2 ^ n \<noteq> (0::32 word)) = ((a AND 2 ^ n \<noteq> 0) \<noteq> (b AND 2 ^ n \<noteq> 0))"
  by (auto simp: and_exp_eq_0_iff_not_bit bit_simps)

lemma crc_step_xor_pow:
  "crc_step (a XOR b) (2 ^ n) msk p = crc_step a (2 ^ n) msk p XOR crc_step b (2 ^ n) msk p"
  unfolding crc_step_alt test_bit_xor
  by (auto simp: bit_eq_iff bit_simps)

lemma crc_step_xor_zero:
  "crc_step (a XOR b) 0 msk p = crc_step a 0 msk p XOR crc_step b 0 msk p"
  by (simp add: crc_step_def)

text \<open>Each round is additive over XOR as long as the tested mask has at most one bit.\<close>

lemma crc_iter_xor:
  "msb = 0 \<or> (\<exists>n. msb = 2 ^ n) \<Longrightarrow>
   crc_iter k (a XOR b) msb msk p = crc_iter k a msb msk p XOR crc_iter k b msb msk p"
proof (induction k arbitrary: a b msb msk p)
  case 0
  then show ?case by simp
next
  case (Suc k)
  have nxt: "drop_bit 1 msb = 0 \<or> (\<exists>n. drop_bit 1 msb = 2 ^ n)"
  proof (cases "msb = 0")
    case True
    then show ?thesis by simp
  next
    case False
    with Suc.prems obtain n where n: "msb = 2 ^ n" by blast
    show ?thesis
    proof (cases "1 \<le> n \<and> n < 32")
      case True
      then have "drop_bit 1 msb = 2 ^ (n - 1)"
        by (simp add: n drop_bit_exp_eq)
      then show ?thesis by blast
    next
      case False
      then have "drop_bit 1 msb = 0"
        by (auto simp: n drop_bit_exp_eq)
      then show ?thesis by blast
    qed
  qed
  have stp: "crc_step (a XOR b) msb msk p = crc_step a msb msk p XOR crc_step b msb msk p"
    using Suc.prems by (auto simp: crc_step_xor_pow crc_step_xor_zero)
  show ?case
    unfolding crc_iter.simps stp by (rule Suc.IH [OF nxt])
qed

lemma crc_loop_step:
  "msb \<noteq> 0x80 \<Longrightarrow>
   crc_loop r msb msk p =
     crc_loop (crc_step r msb msk p) (drop_bit 1 msb) (drop_bit 1 msk) (drop_bit 1 p)"
  by (subst crc_loop.simps) simp

lemma crc_loop_stop: "crc_loop r 0x80 msk p = Some r"
  by (subst crc_loop.simps) simp

lemma crc_iter_unfold:
  "0 < k \<Longrightarrow>
   crc_iter k r msb msk p =
     crc_iter (k - 1) (crc_step r msb msk p) (drop_bit 1 msb) (drop_bit 1 msk) (drop_bit 1 p)"
  by (cases k) simp_all

text \<open>From its initial state the loop returns after sixteen rounds.\<close>

lemma crc_loop_iter:
  "crc_loop r 0x800000 0xFF8000 0x988000 = Some (crc_iter 16 r 0x800000 0xFF8000 0x988000)"
  by (simp add: crc_loop_step crc_loop_stop crc_iter_unfold)

lemma crc_reg_xor: "crc_reg (a XOR b) = crc_reg a XOR crc_reg b"
proof -
  have "(0x800000 :: 32 word) = 2 ^ 23" by simp
  then have "(0x800000 :: 32 word) = 0 \<or> (\<exists>n. (0x800000 :: 32 word) = 2 ^ n)" by blast
  then show ?thesis
    unfolding crc_reg_def by (simp add: crc_iter_xor unsigned_xor_eq del: crc_iter.simps)
qed

subsection \<open>The shift register is additive as well\<close>

lemma shift_in_xor: "push_bit 1 r OR of_bool b = push_bit 1 r XOR (of_bool b :: 8 word)"
proof -
  have "push_bit 1 r AND (of_bool b :: 8 word) = 0"
    by (cases b) (simp_all add: and_one_eq even_iff_mod_2_eq_zero [symmetric])
  then show ?thesis
    by (simp only: disjunctive_xor_eq_or)
qed

lemma of_bool_bxor: "(of_bool (bxor b c) :: 8 word) = of_bool b XOR of_bool c"
  by (cases b; cases c) (simp_all add: bxor_def)

lemma crc8_feed_alt:
  "crc8_feed b r = push_bit 1 r XOR of_bool b XOR (if bit r 7 then 0x31 else 0)"
  by (simp only: crc8_feed_def Let_def shift_in_xor)
     (simp add: xor.assoc del: push_bit_Suc One_nat_def)

lemma crc8_feed_xor:
  "crc8_feed (bxor b c) (r XOR s) = crc8_feed b r XOR crc8_feed c s"
  unfolding crc8_feed_alt of_bool_bxor push_bit_xor bit_xor_iff
  by (cases "bit r 7"; cases "bit s 7") (simp_all add: ac_simps del: push_bit_Suc One_nat_def)

lemma crc8_bits_xor:
  "length xs = length ys \<Longrightarrow>
   crc8_bits (map2 bxor xs ys) (r XOR s) = crc8_bits xs r XOR crc8_bits ys s"
  by (induction xs ys arbitrary: r s rule: list_induct2) (simp_all add: crc8_feed_xor)

lemma msb_first_xor: "msb_first (a XOR b) = map2 bxor (msb_first a) (msb_first b)"
  by (simp add: msb_first_def map2_map_map bit_simps bxor_def del: upt.simps)

lemma crc8_spec_xor: "crc8_spec (a XOR b) = crc8_spec a XOR crc8_spec b"
proof -
  let ?pad = "replicate 8 False"
  have pad: "?pad = map2 bxor ?pad ?pad"
    by (simp add: bxor_def)
  have len: "length (msb_first a) = length (msb_first b)"
    by (simp add: msb_first_def)
  have "msb_first (a XOR b) @ ?pad = map2 bxor (msb_first a @ ?pad) (msb_first b @ ?pad)"
    using len by (subst pad) (simp add: msb_first_xor del: replicate.simps)
  moreover have "crc8_bits (map2 bxor (msb_first a @ ?pad) (msb_first b @ ?pad)) (0 XOR 0)
     = crc8_bits (msb_first a @ ?pad) 0 XOR crc8_bits (msb_first b @ ?pad) 0"
    by (rule crc8_bits_xor) (simp add: len)
  ultimately show ?thesis
    unfolding crc8_spec_def by simp
qed

subsection \<open>Loop and shift register agree on the sixteen unit vectors, hence everywhere\<close>

lemma msb_first_unfold:
  "msb_first v = [bit v 15, bit v 14, bit v 13, bit v 12, bit v 11, bit v 10, bit v 9, bit v 8,
                  bit v 7, bit v 6, bit v 5, bit v 4, bit v 3, bit v 2, bit v 1, bit v 0]"
  by (simp add: msb_first_def upt_rec eval_nat_numeral)

lemma zero_byte_unfold:
  "replicate 8 False = [False, False, False, False, False, False, False, False]"
  by (simp add: eval_nat_numeral)

lemma crc_reg_unfold:
  "crc_reg v =
   crc_step (crc_step (crc_step (crc_step (crc_step (crc_step (crc_step (crc_step
   (crc_step (crc_step (crc_step (crc_step (crc_step (crc_step (crc_step (crc_step
     (push_bit 8 (ucast v))
     0x800000 0xFF8000 0x988000) 0x400000 0x7FC000 0x4C4000)
     0x200000 0x3FE000 0x262000) 0x100000 0x1FF000 0x131000)
     0x80000 0xFF800 0x98800) 0x40000 0x7FC00 0x4C400)
     0x20000 0x3FE00 0x26200) 0x10000 0x1FF00 0x13100)
     0x8000 0xFF80 0x9880) 0x4000 0x7FC0 0x4C40)
     0x2000 0x3FE0 0x2620) 0x1000 0x1FF0 0x1310)
     0x800 0xFF8 0x988) 0x400 0x7FC 0x4C4)
     0x200 0x3FE 0x262) 0x100 0x1FF 0x131"
  by (simp add: crc_reg_def crc_iter_unfold)

lemmas crc_eval =
  crc_reg_unfold crc_step_def crc8_spec_def msb_first_unfold zero_byte_unfold crc8_feed_def

lemma crc_basis:
  "crc_reg 0x1 = ucast (crc8_spec 0x1)"
  "crc_reg 0x2 = ucast (crc8_spec 0x2)"
  "crc_reg 0x4 = ucast (crc8_spec 0x4)"
  "crc_reg 0x8 = ucast (crc8_spec 0x8)"
  "crc_reg 0x10 = ucast (crc8_spec 0x10)"
  "crc_reg 0x20 = ucast (crc8_spec 0x20)"
  "crc_reg 0x40 = ucast (crc8_spec 0x40)"
  "crc_reg 0x80 = ucast (crc8_spec 0x80)"
  "crc_reg 0x100 = ucast (crc8_spec 0x100)"
  "crc_reg 0x200 = ucast (crc8_spec 0x200)"
  "crc_reg 0x400 = ucast (crc8_spec 0x400)"
  "crc_reg 0x800 = ucast (crc8_spec 0x800)"
  "crc_reg 0x1000 = ucast (crc8_spec 0x1000)"
  "crc_reg 0x2000 = ucast (crc8_spec 0x2000)"
  "crc_reg 0x4000 = ucast (crc8_spec 0x4000)"
  "crc_reg 0x8000 = ucast (crc8_spec 0x8000)"
  by (simp_all add: crc_eval)

lemma crc_reg_pow:
  assumes "i < 16"
  shows "crc_reg (2 ^ i) = ucast (crc8_spec (2 ^ i))"
proof -
  have "\<forall>k \<in> set [0..<16]. crc_reg (2 ^ k) = ucast (crc8_spec (2 ^ k))"
    by (simp add: upt_rec crc_basis)
  with assms show ?thesis by simp
qed

lemma take_bit_Suc_xor:
  "take_bit (Suc n) (v :: 16 word) = take_bit n v XOR (if bit v n then 2 ^ n else 0)"
  by (rule bit_word_eqI) (auto simp: bit_simps less_Suc_eq)

lemma crc_reg_zero: "crc_reg 0 = 0"
  using crc_reg_xor [of 0 0] by simp

lemma crc8_spec_zero: "crc8_spec 0 = 0"
  using crc8_spec_xor [of 0 0] by simp

lemma crc_reg_take_bit:
  "n \<le> 16 \<Longrightarrow> crc_reg (take_bit n v) = ucast (crc8_spec (take_bit n v))"
proof (induction n)
  case 0
  show ?case by (simp add: crc_reg_zero crc8_spec_zero)
next
  case (Suc n)
  then have n: "n < 16" and IH: "crc_reg (take_bit n v) = ucast (crc8_spec (take_bit n v))"
    by simp_all
  show ?case
    by (simp add: take_bit_Suc_xor crc_reg_xor crc8_spec_xor IH crc_reg_pow [OF n]
        crc_reg_zero crc8_spec_zero unsigned_xor_eq)
qed

lemma crc_reg_spec: "crc_reg v = ucast (crc8_spec v)"
proof -
  have "take_bit 16 v = v"
    by (simp add: take_bit_word_eq_self)
  with crc_reg_take_bit [of 16 v] show ?thesis by simp
qed

lemma ucast_8_32_eq: "(ucast (a :: 8 word) :: 32 word) = ucast (b :: 8 word) \<longleftrightarrow> a = b"
proof
  assume "(ucast a :: 32 word) = ucast b"
  then have "uint (ucast a :: 32 word) = uint (ucast b :: 32 word)" by simp
  then have "uint a = uint b"
    by (simp add: uint_up_ucast is_up)
  then show "a = b" by (rule word_uint_eqI)
qed simp

lemma htu21_crc_check_eq:
  "htu21_crc_check v c =
     Some (if c = crc8_spec v then htu21_status_ok else htu21_status_crc_error)"
  by (auto simp: htu21_crc_check_def crc_loop_iter crc_reg_def [symmetric] crc_reg_spec
      ucast_8_32_eq)

lemma flip_bit_neq: "i < 8 \<Longrightarrow> c XOR 2 ^ i \<noteq> (c :: 8 word)"
proof
  assume i: "i < 8" and eq: "c XOR 2 ^ i = c"
  have "bit (c XOR 2 ^ i) i \<noteq> bit c i"
    using i by (simp add: bit_simps)
  with eq show False by simp
qed

section \<open>Auxiliary facts about the transport and the commands\<close>

lemma reserved_mask_value: "HTU21_USER_REG_RESERVED_MASK = 0x38"
  by (simp add: HTU21_USER_REG_RESERVED_MASK_def)

lemma htu21_write_command_eq:
  "htu21_write_command bus cmd s =
     (status_of_code (fst (bus (trace s @ [Write [cmd]]))),
      s\<lparr>trace := trace s @ [Write [cmd]]\<rparr>)"
  by (simp add: htu21_write_command_def i2c_master_write_packet_wait_def Let_def
      status_of_code_def split: status_code.splits)

lemma htu21_write_command_no_stop_eq:
  "htu21_write_command_no_stop bus cmd s =
     (status_of_code (fst (bus (trace s @ [WriteNoStop [cmd]]))),
      s\<lparr>trace := trace s @ [WriteNoStop [cmd]]\<rparr>)"
  by (simp add: htu21_write_command_no_stop_def i2c_master_write_packet_wait_no_stop_def Let_def
      status_of_code_def split: status_code.splits)

lemma read_user_register_ok:
  assumes "fst (bus (trace s @ [Write [0xE7]])) = STATUS_OK"
      and "bus (trace s @ [Write [0xE7], Read 1]) = (STATUS_OK, current # rest)"
  shows "htu21_read_user_register bus s =
           (Inr current, s\<lparr>trace := trace s @ [Write [0xE7], Read 1]\<rparr>)"
  using assms
  by (simp add: htu21_read_user_register_def htu21_write_command_eq status_of_code_def
      i2c_master_read_packet_wait_def Let_def)

lemma merge_bits:
  "((current AND 0x38) OR (target AND NOT 0x38)) AND 0x38 = current AND (0x38 :: 8 word)"
  "((current AND 0x38) OR (target AND NOT 0x38)) AND NOT 0x38 = target AND NOT (0x38 :: 8 word)"
  by (auto simp: bit_eq_iff bit_simps)

text \<open>A failed reset leaves the cached conversion times alone.\<close>

lemma reset_failure_keeps_cache:
  "fst (htu21_reset bus s) \<noteq> htu21_status_ok \<Longrightarrow>
   htu21_temperature_conversion_time (snd (htu21_reset bus s))
     = htu21_temperature_conversion_time s
   \<and> htu21_humidity_conversion_time (snd (htu21_reset bus s))
     = htu21_humidity_conversion_time s"
  by (simp add: htu21_reset_def htu21_write_command_eq Let_def split: if_splits)

subsection \<open>The example sensor\<close>

lemma sensor_bus_ok: "fst (sensor_bus tr) = STATUS_OK"
  by (simp add: sensor_bus_def)

lemma sensor_bus_register: "sensor_bus (tr @ [Write [0xE7], Read n]) = (STATUS_OK, [0xBB])"
  by (simp add: sensor_bus_def)

lemma sensor_bus_serial:
  "sensor_bus (tr @ [WriteNoStop [0xFA, 0x0F], Read n]) =
     (STATUS_OK, [0x48, 0x84, 0x54, 0xBA, 0x00, 0x00, 0x32, 0xA7])"
  "sensor_bus (tr @ [WriteNoStop [0xFA, 0x0F], Read n, WriteNoStop [0xFC, 0xC9], Read m]) =
     (STATUS_OK, [0x0A, 0x32, 0x49, 0x68, 0x3A, 0x7C])"
  by (simp_all add: sensor_bus_def)

lemma sensor_bus_measure:
  "sensor_bus (tr @ [Write [0xF3], Delay ms, Read n]) = (STATUS_OK, [0x68, 0x3A, 0x7C])"
  "sensor_bus (tr @ [Write [0xF5], Delay ms, Read n]) = (STATUS_OK, [0x4E, 0x85, 0x6B])"
  by (simp_all add: sensor_bus_def)

lemma sensor_checksums:
  "crc8_spec 0x48 = 0x84" "crc8_spec 0x54 = 0xBA" "crc8_spec 0x00 = 0x00"
  "crc8_spec 0x32 = 0xA7" "crc8_spec 0x0A32 = 0x49" "crc8_spec 0x683A = 0x7C"
  "crc8_spec 0x4E85 = 0x6B"
  by (simp_all add: crc_eval)

lemma faulty_bus_read:
  "\<not> fault (Read n) \<Longrightarrow>
   faulty_bus fault code (tr @ [Read n]) = sensor_bus (tr @ [Read n])"
  by (simp add: faulty_bus_def)

lemma read_user_register_sensor:
  "htu21_read_user_register sensor_bus s =
     (Inr 0xBB, s\<lparr>trace := trace s @ [Write [0xE7], Read 1]\<rparr>)"
  by (rule read_user_register_ok [where rest = "[]"])
     (simp_all add: sensor_bus_ok sensor_bus_register)

lemma write_user_register_sensor:
  "htu21_write_user_register sensor_bus v s =
     (htu21_status_ok,
      s\<lparr>trace := trace s @ [Write [0xE7], Read 1, Write [0xE6, 0x38 OR (v AND NOT 0x38)]]\<rparr>)"
  by (simp add: htu21_write_user_register_def read_user_register_sensor Let_def
      i2c_master_write_packet_wait_def sensor_bus_ok reserved_mask_value)

lemma read_user_register_faulty:
  "\<not> fault (Write [0xE7]) \<Longrightarrow> \<not> fault (Read 1) \<Longrightarrow>
   htu21_read_user_register (faulty_bus fault code) s =
     (Inr 0xBB, s\<lparr>trace := trace s @ [Write [0xE7], Read 1]\<rparr>)"
  by (rule read_user_register_ok [where rest = "[]"])
     (simp_all add: faulty_bus_def sensor_bus_ok sensor_bus_register)

section \<open>Auxiliary facts about the serial number\<close>

lemma serial_crc_bytes_eq:
  "serial_crc_bytes [a0, c0, a1, c1, a2, c2, a3, c3, b0, b1, cb, d0, d1, cd] 0 =
     Some (if c0 = crc8_spec (ucast a0) \<and> c1 = crc8_spec (ucast a1)
              \<and> c2 = crc8_spec (ucast a2) \<and> c3 = crc8_spec (ucast a3)
           then htu21_status_ok else htu21_status_crc_error)"
  by (simp add: serial_crc_bytes.simps [of _ 0] serial_crc_bytes.simps [of _ 2]
      serial_crc_bytes.simps [of _ 4] serial_crc_bytes.simps [of _ 6]
      serial_crc_bytes.simps [of _ 8] htu21_crc_check_eq)

lemma serial_crc_words_eq:
  "serial_crc_words [a0, c0, a1, c1, a2, c2, a3, c3, b0, b1, cb, d0, d1, cd] 8 =
     Some (if cb = crc8_spec (push_bit 8 (ucast b0) OR ucast b1)
              \<and> cd = crc8_spec (push_bit 8 (ucast d0) OR ucast d1)
           then htu21_status_ok else htu21_status_crc_error)"
  by (simp add: serial_crc_words.simps [of _ 8] serial_crc_words.simps [of _ 11]
      serial_crc_words.simps [of _ 14] htu21_crc_check_eq)

text \<open>
  What \<^verbatim>\<open>htu21_read_serial_number\<close> does whenever both reads succeed, whatever the
  transport reports for the two command writes.
\<close>

lemma read_serial_number_reads_ok:
  assumes "first8 = [a0, c0, a1, c1, a2, c2, a3, c3]"
      and "last6 = [b0, b1, cb, d0, d1, cd]"
      and "bus (trace s @ [WriteNoStop [0xFA, 0x0F], Read 8]) = (STATUS_OK, first8)"
      and "bus (trace s @ [WriteNoStop [0xFA, 0x0F], Read 8, WriteNoStop [0xFC, 0xC9], Read 6])
             = (STATUS_OK, last6)"
  shows "htu21_read_serial_number bus s =
           Some (if groups_verify first8 last6
                 then (htu21_status_ok,
                       Some (push_bit 56 (ucast a0) OR push_bit 48 (ucast a1)
                             OR push_bit 40 (ucast a2) OR push_bit 32 (ucast a3)
                             OR push_bit 24 (ucast b0) OR push_bit 16 (ucast b1)
                             OR push_bit 8 (ucast d0) OR ucast d1),
                       s\<lparr>trace := trace s @ [WriteNoStop [0xFA, 0x0F], Read 8,
                                             WriteNoStop [0xFC, 0xC9], Read 6]\<rparr>)
                 else (htu21_status_crc_error, None,
                       s\<lparr>trace := trace s @ [WriteNoStop [0xFA, 0x0F], Read 8,
                                             WriteNoStop [0xFC, 0xC9], Read 6]\<rparr>))"
  using assms(3,4) unfolding assms(1,2)
  by (simp add: htu21_read_serial_number_def i2c_master_write_packet_wait_no_stop_def
      i2c_master_read_packet_wait_def Let_def serial_crc_bytes_eq serial_crc_words_eq
      groups_verify_def htu21_crc_check_eq serial_number_of_def)

section \<open>Auxiliary facts about the conversions\<close>

lemma conversion_no_hold_ok:
  assumes "i2c_master_mode s = htu21_i2c_no_hold"
      and "fst (bus (trace s @ [Write [cmd]])) = STATUS_OK"
      and "bus (trace s @ [Write [cmd], Delay (uint (conversion_time s div 1000)), Read 3])
             = (STATUS_OK, [hi, lo, crc])"
      and "\<And>x tr. conversion_time (x\<lparr>trace := tr\<rparr>) = conversion_time x"
  shows "conversion_and_read_adc hold_cmd cmd conversion_time bus s =
           Some (if crc = crc8_spec (push_bit 8 (ucast hi) OR ucast lo)
                 then Inr (push_bit 8 (ucast hi) OR ucast lo)
                 else Inl htu21_status_crc_error,
                 s\<lparr>trace := trace s @
                      [Write [cmd], Delay (uint (conversion_time s div 1000)), Read 3]\<rparr>)"
  using assms
  by (simp add: conversion_and_read_adc_def htu21_write_command_eq status_of_code_def
      delay_ms_def i2c_master_read_packet_wait_def Let_def htu21_crc_check_eq numeral_3_eq_3)

lemma conversion_no_hold_command_fails:
  assumes "i2c_master_mode s = htu21_i2c_no_hold"
      and "fst (bus (trace s @ [Write [cmd]])) \<noteq> STATUS_OK"
  shows "conversion_and_read_adc hold_cmd cmd conversion_time bus s =
           Some (Inl (status_of_code (fst (bus (trace s @ [Write [cmd]])))),
                 delay_ms
                   (uint (conversion_time (s\<lparr>trace := trace s @ [Write [cmd]]\<rparr>) div 1000))
                   (s\<lparr>trace := trace s @ [Write [cmd]]\<rparr>))"
  using assms
  by (simp add: conversion_and_read_adc_def htu21_write_command_eq status_of_code_def Let_def
      split: status_code.splits)

lemma conversion_error_not_ok:
  "conversion_and_read_adc hold_cmd cmd conversion_time bus s = Some (Inl e, s') \<Longrightarrow>
   e \<noteq> htu21_status_ok"
  by (auto simp: conversion_and_read_adc_def htu21_write_command_eq
      htu21_write_command_no_stop_eq status_of_code_def Let_def htu21_crc_check_eq
      split: if_splits prod.splits status_code.splits)

text \<open>Both conversions, and with them the combined read, always return.\<close>

lemma conversion_returns:
  "conversion_and_read_adc hold_cmd cmd conversion_time bus s \<noteq> None"
  by (auto simp: conversion_and_read_adc_def Let_def htu21_crc_check_eq
      split: if_splits prod.splits)

lemma read_temperature_and_relative_humidity_returns:
  "htu21_read_temperature_and_relative_humidity bus s \<noteq> None"
proof -
  obtain r1 s1 where t: "htu21_temperature_conversion_and_read_adc bus s = Some (r1, s1)"
    using conversion_returns
    by (fastforce simp: htu21_temperature_conversion_and_read_adc_def)
  obtain r2 s2 where h: "htu21_humidity_conversion_and_read_adc bus s1 = Some (r2, s2)"
    using conversion_returns
    by (fastforce simp: htu21_humidity_conversion_and_read_adc_def)
  show ?thesis
    by (cases r1; cases r2)
       (simp_all add: htu21_read_temperature_and_relative_humidity_def t h)
qed

section \<open>Auxiliary facts about the dew point\<close>

lemma dew_point_zero_humidity:
  "rh = 0 \<or> t = - 235.66 \<Longrightarrow> htu21_compute_dew_point (Fin t) (Fin rh) = Fin (- 235.66)"
  by (auto simp: htu21_compute_dew_point_def f_sub_def inf_of_sign_def Let_def)

lemma dew_point_negative_humidity:
  assumes "rh < 0" "t \<noteq> - 235.66"
  shows "htu21_compute_dew_point (Fin t) (Fin rh) = NaN"
proof -
  have "0 < (10::real) powr (8.1332 - 1762.39 / (t + 235.66))"
    by simp
  then have "rh * 10 powr (8.1332 - 1762.39 / (t + 235.66)) < 0"
    using assms(1) by (simp add: mult_neg_pos)
  moreover have "t + 235.66 \<noteq> 0" using assms(2) by auto
  ultimately show ?thesis
    by (simp add: htu21_compute_dew_point_def f_sub_def inf_of_sign_def Let_def)
qed

section \<open>Register write\<close>

text \<open>
  Claim C1. For every target byte and every register byte the device returns,
  \<^verbatim>\<open>htu21_write_user_register\<close> first reads the register (command 0xE7, one-byte read) and
  then sends the write command 0xE6 with the merged byte
  \<open>(current AND RESERVED_MASK) OR (target AND NOT RESERVED_MASK)\<close>, where the mask is 0x38:
  the byte sent has the reserved bits of the register as read and every other bit from
  the target, whatever reserved bits the target carries. The status returned is the
  translation of what the transport reports for that last write.
\<close>

theorem write_user_register_merge:
  assumes "fst (bus (trace s @ [Write [0xE7]])) = STATUS_OK"
      and "bus (trace s @ [Write [0xE7], Read 1]) = (STATUS_OK, current # rest)"
  shows "let merged = (current AND HTU21_USER_REG_RESERVED_MASK)
                        OR (target AND NOT HTU21_USER_REG_RESERVED_MASK);
             tr = trace s @ [Write [0xE7], Read 1, Write [0xE6, merged]]
         in htu21_write_user_register bus target s =
              (status_of_code (fst (bus tr)), s\<lparr>trace := tr\<rparr>)
            \<and> HTU21_USER_REG_RESERVED_MASK = 0x38
            \<and> merged AND 0x38 = current AND 0x38
            \<and> merged AND NOT 0x38 = target AND NOT 0x38"
  using merge_bits [of current target]
  by (simp add: htu21_write_user_register_def read_user_register_ok [OF assms]
      i2c_master_write_packet_wait_def Let_def reserved_mask_value status_of_code_def
      split: status_code.splits)

theorem write_user_register_merge_witness:
  "fst (sensor_bus (trace initial_driver @ [Write [0xE7]])) = STATUS_OK
   \<and> sensor_bus (trace initial_driver @ [Write [0xE7], Read 1]) = (STATUS_OK, [0xBB])
   \<and> htu21_write_user_register sensor_bus 0x05 initial_driver =
        (htu21_status_ok,
         initial_driver\<lparr>trace := [Write [0xE7], Read 1, Write [0xE6, 0x3D]]\<rparr>)
   \<and> (0x3D :: 8 word) AND 0x38 = 0xBB AND 0x38
   \<and> (0x3D :: 8 word) AND NOT 0x38 = 0x05 AND NOT 0x38"
proof -
  have a: "fst (sensor_bus (trace initial_driver @ [Write [0xE7]])) = STATUS_OK"
    by (rule sensor_bus_ok)
  have b: "sensor_bus (trace initial_driver @ [Write [0xE7], Read 1]) = (STATUS_OK, [0xBB])"
    by (rule sensor_bus_register)
  show ?thesis
    using write_user_register_merge [OF a b, of "0x05"] a b
    by (simp add: Let_def reserved_mask_value sensor_bus_ok status_of_code_def
        initial_driver_def)
qed

section \<open>Checksum validation\<close>

text \<open>
  Claim C2. For every 16-bit value \<open>v\<close> and every byte \<open>c\<close>, \<^verbatim>\<open>htu21_crc_check\<close> returns, and
  it returns \<^verbatim>\<open>htu21_status_ok\<close> exactly when \<open>c\<close> is the CRC-8 of \<open>v\<close> (generator
  \<open>x\<^sup>8 + x\<^sup>5 + x\<^sup>4 + 1\<close>, most significant bit first, no reflection, initial remainder 0,
  over \<open>v\<close> followed by a zero byte); otherwise it returns \<^verbatim>\<open>htu21_status_crc_error\<close>. In
  particular the correct checksum is accepted, and the correct checksum with any single
  bit flipped is rejected.
\<close>

theorem crc_check_is_crc8:
  "htu21_crc_check v c =
     Some (if c = crc8_spec v then htu21_status_ok else htu21_status_crc_error)
   \<and> htu21_crc_check v (crc8_spec v) = Some htu21_status_ok
   \<and> (\<forall>i<8. htu21_crc_check v (crc8_spec v XOR 2 ^ i) = Some htu21_status_crc_error)"
  by (simp add: htu21_crc_check_eq flip_bit_neq)

theorem crc_check_is_crc8_witness:
  "htu21_crc_check 0x683A 0x7C = Some htu21_status_ok
   \<and> (3::nat) < 8
   \<and> htu21_crc_check 0x683A (0x7C XOR 2 ^ 3) = Some htu21_status_crc_error"
proof -
  have c: "crc8_spec 0x683A = 0x7C"
    by (simp add: crc_eval)
  from crc_check_is_crc8 [of "0x683A" "0x7C"]
  have "htu21_crc_check 0x683A (crc8_spec 0x683A) = Some htu21_status_ok"
    and "(3::nat) < 8 \<longrightarrow>
         htu21_crc_check 0x683A (crc8_spec 0x683A XOR 2 ^ 3) = Some htu21_status_crc_error"
    by blast+
  then show ?thesis
    unfolding c by simp
qed

section \<open>Resolution and cached conversion times\<close>

text \<open>
  Claim C3. The claim is that when \<^verbatim>\<open>htu21_set_resolution\<close> fails in its register write
  step, after a successful register read, the cached pair of conversion times keeps the
  value it had before the call. The function stores the new pair before it calls
  \<^verbatim>\<open>htu21_write_user_register\<close>. Below, the transport times out on the write-register
  packet: the call asking for 13-bit/10-bit resolution returns
  \<^verbatim>\<open>htu21_status_i2c_transfer_error\<close>, and the cached times have gone from 50000 and 16000
  to 25000 and 5000.
\<close>

theorem set_resolution_write_failure_updates_cache:
  "htu21_set_resolution (faulty_bus is_register_write STATUS_ERR_TIMEOUT)
     example_enum (htu21_resolution_t_13b_rh_10b example_enum) initial_driver =
   (htu21_status_i2c_transfer_error,
    initial_driver\<lparr>htu21_temperature_conversion_time := 25000,
                   htu21_humidity_conversion_time := 5000,
                   trace := [Write [0xE7], Read 1, Write [0xE7], Read 1, Write [0xE6, 0xBA]]\<rparr>)"
  by (simp add: htu21_set_resolution_def htu21_write_user_register_def
      read_user_register_faulty Let_def i2c_master_write_packet_wait_def faulty_bus_def
      reserved_mask_value example_enum_def initial_driver_def)

section \<open>Error propagation\<close>

text \<open>
  Claim C4. The claim is that in every operation the first error the transport reports
  aborts the operation, with no later transaction, and reaches the caller, in particular
  for the two command writes of \<^verbatim>\<open>htu21_read_serial_number\<close>. That function discards the
  status of both command writes. Below, the transport reports an overflow (no acknowledge)
  for every write without stop and serves the reads: the function goes on to issue both
  reads and the second command, and returns \<^verbatim>\<open>htu21_status_ok\<close> with a serial number.
\<close>

theorem read_serial_number_ignores_command_failure:
  "fst (faulty_bus is_no_stop_write STATUS_ERR_OVERFLOW [WriteNoStop [0xFA, 0x0F]])
     = STATUS_ERR_OVERFLOW
   \<and> htu21_read_serial_number (faulty_bus is_no_stop_write STATUS_ERR_OVERFLOW) initial_driver =
       Some (htu21_status_ok, Some 0x485400320A32683A,
             initial_driver\<lparr>trace := [WriteNoStop [0xFA, 0x0F], Read 8,
                                        WriteNoStop [0xFC, 0xC9], Read 6]\<rparr>)"
proof -
  let ?bus = "faulty_bus is_no_stop_write STATUS_ERR_OVERFLOW"
  let ?p = "[0x48, 0x84, 0x54, 0xBA, 0x00, 0x00, 0x32, 0xA7] :: 8 word list"
  let ?q = "[0x0A, 0x32, 0x49, 0x68, 0x3A, 0x7C] :: 8 word list"
  have w: "fst (?bus [WriteNoStop [0xFA, 0x0F]]) = STATUS_ERR_OVERFLOW"
    by (simp add: faulty_bus_def)
  have a: "?bus (trace initial_driver @ [WriteNoStop [0xFA, 0x0F], Read 8]) = (STATUS_OK, ?p)"
    using faulty_bus_read [of is_no_stop_write 8 STATUS_ERR_OVERFLOW
        "trace initial_driver @ [WriteNoStop [0xFA, 0x0F]]"]
    by (simp add: sensor_bus_serial)
  have b: "?bus (trace initial_driver @
        [WriteNoStop [0xFA, 0x0F], Read 8, WriteNoStop [0xFC, 0xC9], Read 6]) = (STATUS_OK, ?q)"
    using faulty_bus_read [of is_no_stop_write 6 STATUS_ERR_OVERFLOW
        "trace initial_driver @ [WriteNoStop [0xFA, 0x0F], Read 8, WriteNoStop [0xFC, 0xC9]]"]
    by (simp add: sensor_bus_serial)
  have g: "groups_verify ?p ?q"
    by (simp add: groups_verify_def htu21_crc_check_eq sensor_checksums)
  have "htu21_read_serial_number ?bus initial_driver =
       Some (htu21_status_ok, Some 0x485400320A32683A,
             initial_driver\<lparr>trace := [WriteNoStop [0xFA, 0x0F], Read 8,
                                        WriteNoStop [0xFC, 0xC9], Read 6]\<rparr>)"
    using read_serial_number_reads_ok [OF refl refl a b] g
    by (simp add: initial_driver_def)
  with w show ?thesis by blast
qed

section \<open>Dew point outside its domain\<close>

text \<open>
  Claim C5, as amended. \<^verbatim>\<open>htu21_compute_dew_point\<close> returns a floating-point number and
  has no way to signal an error; it checks nothing and computes for every input. For
  \<open>t = -235.66\<close> and any finite \<open>rh\<close> it returns the finite number -235.66. For \<open>t \<ge> -200\<close>
  (where no intermediate result leaves the range of a \<^verbatim>\<open>double\<close>, which the model does
  not track) it returns -235.66 when \<open>rh = 0\<close> and NaN when \<open>rh < 0\<close>.
\<close>

theorem dew_point_outside_domain:
  "(t = - 235.66 \<longrightarrow> htu21_compute_dew_point (Fin t) (Fin rh) = Fin (- 235.66))
   \<and> (- 200 \<le> t \<and> rh = 0 \<longrightarrow> htu21_compute_dew_point (Fin t) (Fin rh) = Fin (- 235.66))
   \<and> (- 200 \<le> t \<and> rh < 0 \<longrightarrow> htu21_compute_dew_point (Fin t) (Fin rh) = NaN)"
proof -
  have "t \<noteq> - 235.66" if "- 200 \<le> t"
    using that by simp
  then show ?thesis
    using dew_point_zero_humidity [of rh t] dew_point_negative_humidity [of rh t] by blast
qed

theorem dew_point_outside_domain_witness:
  "(- 200 :: real) \<le> 20 \<and> (- 1 :: real) < 0
   \<and> htu21_compute_dew_point (Fin (- 235.66)) (Fin 50) = Fin (- 235.66)
   \<and> htu21_compute_dew_point (Fin 20) (Fin 0) = Fin (- 235.66)
   \<and> htu21_compute_dew_point (Fin 20) (Fin (- 1)) = NaN"
  using dew_point_outside_domain [of "- 235.66" 50] dew_point_outside_domain [of 20 0]
    dew_point_outside_domain [of 20 "- 1"]
  by simp

text \<open>
  The claim as stated asks for a domain error at \<open>dew_point(t, 0)\<close>; at \<open>t = 20\<close> the
  function computes and returns -235.66.
\<close>

theorem dew_point_zero_humidity_counterexample:
  "htu21_compute_dew_point (Fin 20) (Fin 0) = Fin (- 235.66)"
  by (simp add: htu21_compute_dew_point_def f_sub_def inf_of_sign_def Let_def)

section \<open>Serial number assembly\<close>

text \<open>
  Claim C6. Whenever the two reads of \<^verbatim>\<open>htu21_read_serial_number\<close> succeed and deliver a
  payload of 8 bytes and one of 6 bytes: if every checksum group verifies (the first
  payload as four (byte, checksum) pairs, the second as two (big-endian 16-bit value,
  checksum) triples), the function returns \<^verbatim>\<open>htu21_status_ok\<close> and stores the 64-bit value
  made of the data bytes at positions 0, 2, 4, 6, 8, 9, 11 and 12, most significant first;
  if any group fails, it returns \<^verbatim>\<open>htu21_status_crc_error\<close> and stores nothing.
\<close>

theorem read_serial_number_assembly:
  assumes "first8 = [a0, c0, a1, c1, a2, c2, a3, c3]"
      and "last6 = [b0, b1, cb, d0, d1, cd]"
      and "bus (trace s @ [WriteNoStop [0xFA, 0x0F], Read 8]) = (STATUS_OK, first8)"
      and "bus (trace s @ [WriteNoStop [0xFA, 0x0F], Read 8, WriteNoStop [0xFC, 0xC9], Read 6])
             = (STATUS_OK, last6)"
  shows "htu21_read_serial_number bus s =
           Some (if groups_verify first8 last6
                 then (htu21_status_ok,
                       Some (push_bit 56 (ucast a0) OR push_bit 48 (ucast a1)
                             OR push_bit 40 (ucast a2) OR push_bit 32 (ucast a3)
                             OR push_bit 24 (ucast b0) OR push_bit 16 (ucast b1)
                             OR push_bit 8 (ucast d0) OR ucast d1),
                       s\<lparr>trace := trace s @ [WriteNoStop [0xFA, 0x0F], Read 8,
                                             WriteNoStop [0xFC, 0xC9], Read 6]\<rparr>)
                 else (htu21_status_crc_error, None,
                       s\<lparr>trace := trace s @ [WriteNoStop [0xFA, 0x0F], Read 8,
                                             WriteNoStop [0xFC, 0xC9], Read 6]\<rparr>))"
  using assms by (rule read_serial_number_reads_ok)

theorem read_serial_number_assembly_witness:
  "sensor_bus (trace initial_driver @ [WriteNoStop [0xFA, 0x0F], Read 8]) =
     (STATUS_OK, [0x48, 0x84, 0x54, 0xBA, 0x00, 0x00, 0x32, 0xA7])
   \<and> sensor_bus (trace initial_driver @
        [WriteNoStop [0xFA, 0x0F], Read 8, WriteNoStop [0xFC, 0xC9], Read 6]) =
     (STATUS_OK, [0x0A, 0x32, 0x49, 0x68, 0x3A, 0x7C])
   \<and> groups_verify [0x48, 0x84, 0x54, 0xBA, 0x00, 0x00, 0x32, 0xA7]
        [0x0A, 0x32, 0x49, 0x68, 0x3A, 0x7C]
   \<and> htu21_read_serial_number sensor_bus initial_driver =
       Some (htu21_status_ok, Some 0x485400320A32683A,
             initial_driver\<lparr>trace := [WriteNoStop [0xFA, 0x0F], Read 8,
                                        WriteNoStop [0xFC, 0xC9], Read 6]\<rparr>)
   \<and> corrupt_serial_bus (trace initial_driver @
        [WriteNoStop [0xFA, 0x0F], Read 8, WriteNoStop [0xFC, 0xC9], Read 6]) =
     (STATUS_OK, [0x0A, 0x32, 0x49, 0x68, 0x3A, 0x00])
   \<and> htu21_read_serial_number corrupt_serial_bus initial_driver =
       Some (htu21_status_crc_error, None,
             initial_driver\<lparr>trace := [WriteNoStop [0xFA, 0x0F], Read 8,
                                        WriteNoStop [0xFC, 0xC9], Read 6]\<rparr>)"
proof -
  let ?p = "[0x48, 0x84, 0x54, 0xBA, 0x00, 0x00, 0x32, 0xA7] :: 8 word list"
  let ?q = "[0x0A, 0x32, 0x49, 0x68, 0x3A, 0x7C] :: 8 word list"
  let ?q' = "[0x0A, 0x32, 0x49, 0x68, 0x3A, 0x00] :: 8 word list"
  let ?t1 = "trace initial_driver @ [WriteNoStop [0xFA, 0x0F], Read 8]"
  let ?t2 = "trace initial_driver @
        [WriteNoStop [0xFA, 0x0F], Read 8, WriteNoStop [0xFC, 0xC9], Read 6]"
  have a: "sensor_bus ?t1 = (STATUS_OK, ?p)"
    by (rule sensor_bus_serial)
  have b: "sensor_bus ?t2 = (STATUS_OK, ?q)"
    by (rule sensor_bus_serial)
  have g: "groups_verify ?p ?q"
    by (simp add: groups_verify_def htu21_crc_check_eq sensor_checksums)
  have r: "htu21_read_serial_number sensor_bus initial_driver =
       Some (htu21_status_ok, Some 0x485400320A32683A,
             initial_driver\<lparr>trace := [WriteNoStop [0xFA, 0x0F], Read 8,
                                        WriteNoStop [0xFC, 0xC9], Read 6]\<rparr>)"
    using read_serial_number_assembly [OF refl refl a b] g
    by (simp add: initial_driver_def)
  have a': "corrupt_serial_bus ?t1 = (STATUS_OK, ?p)"
    by (simp add: corrupt_serial_bus_def a)
  have b': "corrupt_serial_bus ?t2 = (STATUS_OK, ?q')"
    by (simp add: corrupt_serial_bus_def b)
  have g': "\<not> groups_verify ?p ?q'"
    by (simp add: groups_verify_def htu21_crc_check_eq sensor_checksums)
  have r': "htu21_read_serial_number corrupt_serial_bus initial_driver =
       Some (htu21_status_crc_error, None,
             initial_driver\<lparr>trace := [WriteNoStop [0xFA, 0x0F], Read 8,
                                        WriteNoStop [0xFC, 0xC9], Read 6]\<rparr>)"
    using read_serial_number_assembly [OF refl refl a' b'] g'
    by (simp add: initial_driver_def)
  from a b g r b' r' show ?thesis by blast
qed

section \<open>Combined temperature and humidity read\<close>

text \<open>
  Claim C7. In no-hold mode with the cached times of the 14-bit/12-bit resolution (50000
  and 16000 microseconds), when the transport accepts both commands and both 3-byte reads
  deliver a big-endian ADC value with its valid checksum,
  \<^verbatim>\<open>htu21_read_temperature_and_relative_humidity\<close> performs, in this order: the write of
  the no-hold temperature command 0xF3, a wait of 50000 / 1000 milliseconds, a 3-byte
  read; the write of the no-hold humidity command 0xF5, a wait of 16000 / 1000
  milliseconds, a 3-byte read. It returns \<^verbatim>\<open>htu21_status_ok\<close>, the temperature
  \<open>adc_t * 175.72 / 65536 - 46.85\<close> and the humidity \<open>adc_h * 125 / 65536 - 6\<close>.
\<close>

theorem read_temperature_and_humidity_no_hold:
  assumes "i2c_master_mode s = htu21_i2c_no_hold"
      and "htu21_temperature_conversion_time s = 50000"
      and "htu21_humidity_conversion_time s = 16000"
      and "tr1 = trace s @ [Write [0xF3], Delay (50000 div 1000), Read 3]"
      and "tr2 = tr1 @ [Write [0xF5], Delay (16000 div 1000), Read 3]"
      and "fst (bus (trace s @ [Write [0xF3]])) = STATUS_OK"
      and "bus tr1 = (STATUS_OK, [t_hi, t_lo, t_crc])"
      and "fst (bus (tr1 @ [Write [0xF5]])) = STATUS_OK"
      and "bus tr2 = (STATUS_OK, [h_hi, h_lo, h_crc])"
      and "adc_t = push_bit 8 (ucast t_hi) OR ucast t_lo"
      and "adc_h = push_bit 8 (ucast h_hi) OR ucast h_lo"
      and "htu21_crc_check adc_t t_crc = Some htu21_status_ok"
      and "htu21_crc_check adc_h h_crc = Some htu21_status_ok"
  shows "htu21_read_temperature_and_relative_humidity bus s =
           Some (htu21_status_ok,
                 Some (Fin (real (unat adc_t) * 175.72 / 65536 - 46.85)),
                 Some (Fin (real (unat adc_h) * 125 / 65536 - 6)),
                 s\<lparr>trace := tr2\<rparr>)"
proof -
  have t: "htu21_temperature_conversion_and_read_adc bus s =
             Some (Inr adc_t, s\<lparr>trace := tr1\<rparr>)"
    unfolding htu21_temperature_conversion_and_read_adc_def
    using assms
      conversion_no_hold_ok
        [of s bus "0xF3" htu21_temperature_conversion_time t_hi t_lo t_crc "0xE3"]
    by (simp add: htu21_crc_check_eq split: if_splits)
  have h: "htu21_humidity_conversion_and_read_adc bus (s\<lparr>trace := tr1\<rparr>) =
             Some (Inr adc_h, s\<lparr>trace := tr2\<rparr>)"
    unfolding htu21_humidity_conversion_and_read_adc_def
    using assms
      conversion_no_hold_ok
        [of "s\<lparr>trace := tr1\<rparr>" bus "0xF5" htu21_humidity_conversion_time h_hi h_lo h_crc "0xE5"]
    by (simp add: htu21_crc_check_eq split: if_splits)
  show ?thesis
    by (simp add: htu21_read_temperature_and_relative_humidity_def t h
        temperature_of_adc_def humidity_of_adc_def)
qed

theorem read_temperature_and_humidity_no_hold_witness:
  "i2c_master_mode initial_driver = htu21_i2c_no_hold
   \<and> htu21_temperature_conversion_time initial_driver = 50000
   \<and> htu21_humidity_conversion_time initial_driver = 16000
   \<and> sensor_bus [Write [0xF3], Delay 50, Read 3] = (STATUS_OK, [0x68, 0x3A, 0x7C])
   \<and> sensor_bus [Write [0xF3], Delay 50, Read 3, Write [0xF5], Delay 16, Read 3]
       = (STATUS_OK, [0x4E, 0x85, 0x6B])
   \<and> htu21_crc_check 0x683A 0x7C = Some htu21_status_ok
   \<and> htu21_crc_check 0x4E85 0x6B = Some htu21_status_ok
   \<and> htu21_read_temperature_and_relative_humidity sensor_bus initial_driver =
       Some (htu21_status_ok,
             Some (Fin (26682 * 175.72 / 65536 - 46.85)),
             Some (Fin (20101 * 125 / 65536 - 6)),
             initial_driver\<lparr>trace :=
               [Write [0xF3], Delay 50, Read 3, Write [0xF5], Delay 16, Read 3]\<rparr>)"
proof -
  let ?tr1 = "trace initial_driver @ [Write [0xF3], Delay (50000 div 1000), Read 3]"
  let ?tr2 = "?tr1 @ [Write [0xF5], Delay (16000 div 1000), Read 3]"
  have m: "i2c_master_mode initial_driver = htu21_i2c_no_hold"
    and t: "htu21_temperature_conversion_time initial_driver = 50000"
    and h: "htu21_humidity_conversion_time initial_driver = 16000"
    by (simp_all add: initial_driver_def)
  have w1: "fst (sensor_bus (trace initial_driver @ [Write [0xF3]])) = STATUS_OK"
    and w2: "fst (sensor_bus (?tr1 @ [Write [0xF5]])) = STATUS_OK"
    by (rule sensor_bus_ok)+
  have r1: "sensor_bus ?tr1 = (STATUS_OK, [0x68, 0x3A, 0x7C])"
    by (rule sensor_bus_measure)
  have r2: "sensor_bus ?tr2 = (STATUS_OK, [0x4E, 0x85, 0x6B])"
    by (simp add: sensor_bus_measure(2)
          [of "trace initial_driver @ [Write [0xF3], Delay 50, Read 3]" 16 3, simplified])
  have a1: "(0x683A :: 16 word) = push_bit 8 (ucast (0x68 :: 8 word)) OR ucast (0x3A :: 8 word)"
    and a2: "(0x4E85 :: 16 word) = push_bit 8 (ucast (0x4E :: 8 word)) OR ucast (0x85 :: 8 word)"
    by simp_all
  have c1: "htu21_crc_check 0x683A 0x7C = Some htu21_status_ok"
    and c2: "htu21_crc_check 0x4E85 0x6B = Some htu21_status_ok"
    by (simp_all add: htu21_crc_check_eq sensor_checksums)
  note inst = read_temperature_and_humidity_no_hold
    [OF m t h refl refl w1 r1 w2 r2 a1 a2 c1 c2]
  have res: "htu21_read_temperature_and_relative_humidity sensor_bus initial_driver =
       Some (htu21_status_ok,
             Some (Fin (26682 * 175.72 / 65536 - 46.85)),
             Some (Fin (20101 * 125 / 65536 - 6)),
             initial_driver\<lparr>trace :=
               [Write [0xF3], Delay 50, Read 3, Write [0xF5], Delay 16, Read 3]\<rparr>)"
    using inst by (simp add: initial_driver_def)
  have r1': "sensor_bus [Write [0xF3], Delay 50, Read 3] = (STATUS_OK, [0x68, 0x3A, 0x7C])"
    using r1 by (simp add: initial_driver_def)
  have r2': "sensor_bus [Write [0xF3], Delay 50, Read 3, Write [0xF5], Delay 16, Read 3]
       = (STATUS_OK, [0x4E, 0x85, 0x6B])"
    using r2 by (simp add: initial_driver_def)
  from m t h r1' r2' c1 c2 res show ?thesis by blast
qed

section \<open>Compensated humidity\<close>

text \<open>
  Claim C8. For every humidity value \<open>x\<close>, \<^verbatim>\<open>htu21_compute_compensated_humidity\<close> at the
  temperature 25 returns \<open>x\<close>: the term \<open>(25 - temperature) * (-0.15)\<close> vanishes. This holds
  for the infinities and NaN as well.
\<close>

theorem compensated_humidity_at_25:
  "htu21_compute_compensated_humidity (Fin 25) x = x"
  by (cases x) (simp_all add: htu21_compute_compensated_humidity_def f_sub_def)

section \<open>Outputs of the combined read\<close>

text \<open>
  Claim C9. \<^verbatim>\<open>htu21_read_temperature_and_relative_humidity\<close> does not write its outputs
  atomically. When the temperature sequence fails, the call returns that error and writes
  neither output. When the temperature sequence succeeds and the humidity sequence fails,
  the call returns the error of the humidity sequence, the temperature output has been
  overwritten with the converted value, and the humidity output has not been written.
  When both succeed, both outputs are written and the call returns \<^verbatim>\<open>htu21_status_ok\<close>.
\<close>

theorem read_temperature_and_humidity_outputs:
  "(htu21_temperature_conversion_and_read_adc bus s = Some (Inl e, s1) \<longrightarrow>
      e \<noteq> htu21_status_ok
      \<and> htu21_read_temperature_and_relative_humidity bus s = Some (e, None, None, s1))
   \<and> (htu21_temperature_conversion_and_read_adc bus s = Some (Inr adc, s1)
      \<and> htu21_humidity_conversion_and_read_adc bus s1 = Some (Inl e, s2) \<longrightarrow>
      e \<noteq> htu21_status_ok
      \<and> htu21_read_temperature_and_relative_humidity bus s =
          Some (e, Some (temperature_of_adc adc), None, s2))
   \<and> (htu21_temperature_conversion_and_read_adc bus s = Some (Inr adc, s1)
      \<and> htu21_humidity_conversion_and_read_adc bus s1 = Some (Inr adc', s2) \<longrightarrow>
      htu21_read_temperature_and_relative_humidity bus s =
        Some (htu21_status_ok, Some (temperature_of_adc adc), Some (humidity_of_adc adc'), s2))"
  by (auto simp: htu21_read_temperature_and_relative_humidity_def
      htu21_temperature_conversion_and_read_adc_def htu21_humidity_conversion_and_read_adc_def
      dest: conversion_error_not_ok)

theorem read_temperature_and_humidity_outputs_witness:
  "htu21_read_temperature_and_relative_humidity
     (faulty_bus (is_write_of 0xF3) STATUS_ERR_OVERFLOW) initial_driver =
     Some (htu21_status_no_i2c_acknowledge, None, None,
           initial_driver\<lparr>trace := [Write [0xF3], Delay 50]\<rparr>)
   \<and> htu21_read_temperature_and_relative_humidity
       (faulty_bus (is_write_of 0xF5) STATUS_ERR_TIMEOUT) initial_driver =
     Some (htu21_status_i2c_transfer_error, Some (temperature_of_adc 0x683A), None,
           initial_driver\<lparr>trace :=
             [Write [0xF3], Delay 50, Read 3, Write [0xF5], Delay 16]\<rparr>)"
proof -
  let ?b1 = "faulty_bus (is_write_of 0xF3) STATUS_ERR_OVERFLOW"
  let ?b2 = "faulty_bus (is_write_of 0xF5) STATUS_ERR_TIMEOUT"
  let ?s1 = "initial_driver\<lparr>trace := [Write [0xF3], Delay 50]\<rparr>"
  let ?s2 = "initial_driver\<lparr>trace := [Write [0xF3], Delay 50, Read 3]\<rparr>"
  let ?s3 = "initial_driver\<lparr>trace :=
               [Write [0xF3], Delay 50, Read 3, Write [0xF5], Delay 16]\<rparr>"
  have t1: "htu21_temperature_conversion_and_read_adc ?b1 initial_driver =
              Some (Inl htu21_status_no_i2c_acknowledge, ?s1)"
    unfolding htu21_temperature_conversion_and_read_adc_def
    by (subst conversion_no_hold_command_fails)
       (simp_all add: faulty_bus_def is_write_of_def initial_driver_def status_of_code_def
          delay_ms_def)
  have t2: "htu21_temperature_conversion_and_read_adc ?b2 initial_driver =
              Some (Inr 0x683A, ?s2)"
    unfolding htu21_temperature_conversion_and_read_adc_def
    by (subst conversion_no_hold_ok [where hi = "0x68" and lo = "0x3A" and crc = "0x7C"])
       (simp_all add: faulty_bus_def is_write_of_def initial_driver_def sensor_bus_def
          sensor_checksums)
  have h2: "htu21_humidity_conversion_and_read_adc ?b2 ?s2 =
              Some (Inl htu21_status_i2c_transfer_error, ?s3)"
    unfolding htu21_humidity_conversion_and_read_adc_def
    by (subst conversion_no_hold_command_fails)
       (simp_all add: faulty_bus_def is_write_of_def initial_driver_def status_of_code_def
          delay_ms_def)
  from read_temperature_and_humidity_outputs
         [where bus = ?b1 and s = initial_driver and e = htu21_status_no_i2c_acknowledge
            and ?s1.0 = ?s1]
       t1
  have a: "htu21_read_temperature_and_relative_humidity ?b1 initial_driver =
     Some (htu21_status_no_i2c_acknowledge, None, None, ?s1)"
    by blast
  from read_temperature_and_humidity_outputs
         [where bus = ?b2 and s = initial_driver and e = htu21_status_i2c_transfer_error
            and adc = "0x683A" and ?s1.0 = ?s2 and ?s2.0 = ?s3]
       t2 h2
  have b: "htu21_read_temperature_and_relative_humidity ?b2 initial_driver =
     Some (htu21_status_i2c_transfer_error, Some (temperature_of_adc 0x683A), None, ?s3)"
    by blast
  from a b show ?thesis by blast
qed

section \<open>Resolution argument outside the enumeration\<close>

text \<open>
  Claim C10. For every argument that is none of the four enumerators,
  \<^verbatim>\<open>htu21_set_resolution\<close> behaves exactly as for the 14-bit/12-bit enumerator: it fails
  only where the register read or the register write fails, and otherwise clears the
  resolution bits of the register value (pattern 0x00) and caches the conversion times
  50000 and 16000. The argument itself is never rejected.
\<close>

theorem set_resolution_out_of_range:
  assumes "res \<notin> {htu21_resolution_t_14b_rh_12b e, htu21_resolution_t_13b_rh_10b e,
                   htu21_resolution_t_12b_rh_8b e, htu21_resolution_t_11b_rh_11b e}"
  shows "htu21_set_resolution bus e res s =
           htu21_set_resolution bus e (htu21_resolution_t_14b_rh_12b e) s
         \<and> (case htu21_read_user_register bus s of
              (Inl status, s1) \<Rightarrow> htu21_set_resolution bus e res s = (status, s1)
            | (Inr reg_value, s1) \<Rightarrow>
                htu21_set_resolution bus e res s =
                  htu21_write_user_register bus
                    ((reg_value AND NOT HTU21_USER_REG_RESOLUTION_MASK) OR 0x00)
                    (s1\<lparr>htu21_temperature_conversion_time := 50000,
                        htu21_humidity_conversion_time := 16000\<rparr>))"
  using assms
  by (simp add: htu21_set_resolution_def Let_def split: prod.splits sum.splits)

theorem set_resolution_out_of_range_witness:
  "(7::int) \<notin> {htu21_resolution_t_14b_rh_12b example_enum,
                 htu21_resolution_t_13b_rh_10b example_enum,
                 htu21_resolution_t_12b_rh_8b example_enum,
                 htu21_resolution_t_11b_rh_11b example_enum}
   \<and> htu21_set_resolution sensor_bus example_enum 7 initial_driver =
       htu21_set_resolution sensor_bus example_enum 0 initial_driver
   \<and> htu21_set_resolution sensor_bus example_enum 7 initial_driver =
       (htu21_status_ok,
        initial_driver\<lparr>trace :=
          [Write [0xE7], Read 1, Write [0xE7], Read 1, Write [0xE6, 0x3A]]\<rparr>)"
proof -
  have a: "(7::int) \<notin> {htu21_resolution_t_14b_rh_12b example_enum,
                 htu21_resolution_t_13b_rh_10b example_enum,
                 htu21_resolution_t_12b_rh_8b example_enum,
                 htu21_resolution_t_11b_rh_11b example_enum}"
    by (simp add: example_enum_def)
  note inst = set_resolution_out_of_range [OF a, of sensor_bus initial_driver]
  have b: "htu21_set_resolution sensor_bus example_enum 7 initial_driver =
       htu21_set_resolution sensor_bus example_enum 0 initial_driver"
    using inst [THEN conjunct1] by (simp add: example_enum_def)
  have c: "htu21_set_resolution sensor_bus example_enum 7 initial_driver =
       (htu21_status_ok,
        initial_driver\<lparr>trace :=
          [Write [0xE7], Read 1, Write [0xE7], Read 1, Write [0xE6, 0x3A]]\<rparr>)"
    using inst [THEN conjunct2]
    by (simp add: read_user_register_sensor write_user_register_sensor initial_driver_def)
  from a b c show ?thesis by blast
qed

end
